theory Spec2Isabelle
  imports Complex_Main "HOL-Library.Sublist"
begin

section \<open>Strings\<close>

text \<open>
  A JavaScript string is modelled as a \<^typ>\<open>string\<close>: a list of bytes holding the
  UTF-8 encoding of the text. \<open>includes_js s t\<close> is \<open>s.includes(t)\<close>: \<open>t\<close> occurs in \<open>s\<close> as
  a contiguous run. \<open>toLowerCase\<close> lowers the letters A to Z and leaves every other byte
  alone; this is what JavaScript does on ASCII text (the letters of the keyword tests and of
  the fixture data), and the model says nothing about case mapping outside ASCII.
\<close>

definition toLowerChar :: "char \<Rightarrow> char" where
  "toLowerChar c =
     (case map_of (zip ''ABCDEFGHIJKLMNOPQRSTUVWXYZ'' ''abcdefghijklmnopqrstuvwxyz'') c of
        Some l \<Rightarrow> l
      | None \<Rightarrow> c)"

definition toLowerCase :: "string \<Rightarrow> string" where
  "toLowerCase s = map toLowerChar s"

fun includes_js :: "string \<Rightarrow> string \<Rightarrow> bool" where
  "includes_js [] t = (t = [])"
| "includes_js (c # cs) t = (prefix t (c # cs) \<or> includes_js cs t)"

definition euro :: string where
  "euro = [CHR 0xE2, CHR 0x82, CHR 0xAC]"

definition degree :: string where
  "degree = [CHR 0xC2, CHR 0xB0]"

definition e_acute :: string where
  "e_acute = [CHR 0xC3, CHR 0xA9]"

section \<open>Data shown by the chat (components/event-card, city-walk, weather-event-card)\<close>

record EventData =
  ev_id :: string
  ev_title :: string
  ev_image :: string
  ev_time :: string
  ev_location :: string
  ev_price :: string
  ev_category :: string
  ev_source :: string
  ev_description :: "string option"

record Route =
  route_name :: string
  route_waypoints :: "string list"

datatype Difficulty = Easy | Moderate | Challenging

record CityWalkData =
  walk_id :: string
  walk_title :: string
  walk_description :: string
  walk_distance :: string
  walk_duration :: string
  walk_location :: string
  walk_route :: Route
  walk_difficulty :: "Difficulty option"
  walk_source :: string

datatype WeatherType = rain | sun | wind | snow | clouds | fog | storm | clear

record WeatherEventData =
  wx_id :: string
  wx_location :: string
  wx_weatherType :: WeatherType
  wx_temperature :: string
  wx_condition :: string
  wx_precipitation :: "string option"
  wx_humidity :: "string option"
  wx_windSpeed :: "string option"

section \<open>Components\<close>

text \<open>
  A component is modelled by what it renders: a carousel by the list of cards it shows, in
  order; \<open>null\<close> by \<open>None\<close>.
\<close>

datatype event_card = EventCard EventData
datatype walk_card = CityWalk CityWalkData
datatype weather_card = WeatherEventCard WeatherEventData

definition EventCarousel :: "EventData list \<Rightarrow> event_card list" where
  "EventCarousel events = map EventCard events"

datatype walk_list = NoWalksFound | Walks "walk_card list"

definition WalkList :: "CityWalkData list \<Rightarrow> walk_list" where
  "WalkList walks = (if length walks = 0 then NoWalksFound else Walks (map CityWalk walks))"

definition demoEvents :: "WeatherEventData list" where
  "demoEvents =
    [\<lparr>wx_id = ''1'', wx_location = ''Groningen, Netherlands'', wx_weatherType = fog,
       wx_temperature = ''12'' @ degree, wx_condition = ''Foggy'',
       wx_precipitation = Some ''30%'', wx_humidity = Some ''90%'',
       wx_windSpeed = Some ''8 km/h''\<rparr>,
     \<lparr>wx_id = ''2'', wx_location = ''Rotterdam'', wx_weatherType = wind,
       wx_temperature = ''14'' @ degree, wx_condition = ''Windy'',
       wx_precipitation = None, wx_humidity = Some ''65%'',
       wx_windSpeed = Some ''32 km/h''\<rparr>,
     \<lparr>wx_id = ''3'', wx_location = ''Amsterdam'', wx_weatherType = rain,
       wx_temperature = ''11'' @ degree, wx_condition = ''Heavy Rain'',
       wx_precipitation = Some ''100%'', wx_humidity = None,
       wx_windSpeed = Some ''12 km/h''\<rparr>]"

text \<open>
  \<open>displayEvents\<close> is the line \<open>events.length > 0 ? events : demoEvents\<close>; it is taken
  with the fallback list as a parameter as well, so that its use can be stated.
\<close>

definition displayEvents_of :: "WeatherEventData list \<Rightarrow> WeatherEventData list \<Rightarrow> WeatherEventData list" where
  "displayEvents_of demo events = (if length events > 0 then events else demo)"

definition WeatherEventCarousel_with :: "WeatherEventData list \<Rightarrow> WeatherEventData list \<Rightarrow> weather_card list option" where
  "WeatherEventCarousel_with demo events =
     (if length events = 0 then None
      else Some (map WeatherEventCard (displayEvents_of demo events)))"

definition WeatherEventCarousel :: "WeatherEventData list \<Rightarrow> weather_card list option" where
  "WeatherEventCarousel events = WeatherEventCarousel_with demoEvents events"

section \<open>The server action (app/actions): mock MCP data\<close>

datatype Role = user | assistant

record ServerMessage =
  role :: Role
  content :: string

definition mockUitAgendaRotterdam :: "EventData list" where
  "mockUitAgendaRotterdam =
    [\<lparr>ev_id = ''rot-1'', ev_title = ''Techno Bunker Night'',
       ev_image = ''https://images.unsplash.com/photo-1574391884720-2e45549d7733?q=80&w=1000'',
       ev_time = ''Tonight, 23:00'', ev_location = ''Perron, Rotterdam'',
       ev_price = euro @ ''15.00'', ev_category = ''Clubbing'',
       ev_source = ''uitagenda-rotterdam'',
       ev_description = Some ''Underground techno night featuring local and international DJs. Dark, industrial vibes.''\<rparr>,
     \<lparr>ev_id = ''rot-2'', ev_title = ''Jazz at Bird'',
       ev_image = ''https://images.unsplash.com/photo-1511192336575-5a79af67a629?q=80&w=1000'',
       ev_time = ''Tonight, 20:30'', ev_location = ''Bird, Rotterdam'',
       ev_price = ''Free'', ev_category = ''Live Music'',
       ev_source = ''uitagenda-rotterdam'',
       ev_description = Some ''Intimate jazz session with local musicians. Cozy atmosphere, great cocktails.''\<rparr>,
     \<lparr>ev_id = ''rot-3'', ev_title = ''Theater Rotterdam: Modern Dance'',
       ev_image = ''https://images.unsplash.com/photo-1508700115892-45ecd05ae2ad?q=80&w=1000'',
       ev_time = ''Tonight, 20:00'', ev_location = ''Theater Rotterdam'',
       ev_price = euro @ ''25.00'', ev_category = ''Theater'',
       ev_source = ''uitagenda-rotterdam'',
       ev_description = Some ''Contemporary dance performance exploring urban movement and rhythm.''\<rparr>]"

definition mockIAmsterdam :: "EventData list" where
  "mockIAmsterdam =
    [\<lparr>ev_id = ''ams-1'', ev_title = ''Rijksmuseum Late Night'',
       ev_image = ''https://images.unsplash.com/photo-1554907984-15263bfd63bd?q=80&w=1000'',
       ev_time = ''Tonight, 19:00 - 22:00'', ev_location = ''Museumplein, Amsterdam'',
       ev_price = euro @ ''22.50'', ev_category = ''Culture'',
       ev_source = ''mcp-iamsterdam'',
       ev_description = Some ''Extended evening hours at the Rijksmuseum. Special guided tours and live music in the galleries.''\<rparr>,
     \<lparr>ev_id = ''ams-2'', ev_title = ''Canal Light Tour'',
       ev_image = ''https://images.unsplash.com/photo-1588733103629-b77afeaf847d?q=80&w=1000'',
       ev_time = ''Starts every 30 mins'', ev_location = ''Central Station'',
       ev_price = euro @ ''18.00'', ev_category = ''Sightseeing'',
       ev_source = ''mcp-iamsterdam'',
       ev_description = Some ''Evening canal cruise with illuminated bridges and historic commentary. Romantic atmosphere.''\<rparr>,
     \<lparr>ev_id = ''ams-3'', ev_title = ''Van Gogh Museum: Night Viewing'',
       ev_image = ''https://images.unsplash.com/photo-1578301978162-7aae4d755744?q=80&w=1000'',
       ev_time = ''Tonight, 19:00 - 21:00'', ev_location = ''Museumplein, Amsterdam'',
       ev_price = euro @ ''20.00'', ev_category = ''Culture'',
       ev_source = ''mcp-iamsterdam'',
       ev_description = Some ''Special evening viewing with fewer crowds. Audio guide included.''\<rparr>]"

definition mockCitySecrets :: "CityWalkData list" where
  "mockCitySecrets =
    [\<lparr>walk_id = ''secret-1'', walk_title = ''Hidden Speakeasy Walk'',
       walk_description = ''Discover Amsterdam'' @ [CHR 0x27] @ ''s best-kept secret bars and hidden cocktail lounges in the historic Jordaan district.'',
       walk_distance = ''2.5 km'', walk_duration = ''1.5 hours'',
       walk_location = ''Jordaan District, Amsterdam'',
       walk_route = \<lparr>route_name = ''Speakeasy Trail'',
         route_waypoints = [''Start: Caf'' @ e_acute @ '' de Reiger'', ''Door 74 (Secret entrance)'',
           ''Hiding in Plain Sight'', ''Tales & Spirits'', ''End: Proeflokaal A. van Wees'']\<rparr>,
       walk_difficulty = Some Easy, walk_source = ''mcp-city-secrets''\<rparr>,
     \<lparr>walk_id = ''secret-2'', walk_title = ''Rotterdam Street Art Discovery'',
       walk_description = ''Explore the vibrant street art scene in Rotterdam'' @ [CHR 0x27] @ ''s Witte de Withstraat and surrounding areas.'',
       walk_distance = ''3.0 km'', walk_duration = ''2 hours'',
       walk_location = ''Witte de Withstraat, Rotterdam'',
       walk_route = \<lparr>route_name = ''Art Walk'',
         route_waypoints = [''Start: Witte de Withstraat'', ''Mural at WORM'',
           ''Underground Gallery'', ''Hidden Courtyard Art'', ''End: TENT Rotterdam'']\<rparr>,
       walk_difficulty = Some Moderate, walk_source = ''mcp-city-secrets''\<rparr>,
     \<lparr>walk_id = ''secret-3'', walk_title = ''Romantic Canal Walk'',
       walk_description = ''A peaceful evening stroll along Amsterdam'' @ [CHR 0x27] @ ''s lesser-known canals, away from the crowds.'',
       walk_distance = ''4.0 km'', walk_duration = ''1.5 hours'',
       walk_location = ''Nine Streets, Amsterdam'',
       walk_route = \<lparr>route_name = ''Romantic Route'',
         route_waypoints = [''Start: Prinsengracht'', ''Herengracht'', ''Keizersgracht'',
           ''Bloemgracht'', ''End: Jordaan'']\<rparr>,
       walk_difficulty = Some Easy, walk_source = ''mcp-city-secrets''\<rparr>]"

text \<open>\<open>mockTicketmaster\<close> takes the requested location and does not read it.\<close>

definition mockTicketmaster :: "string \<Rightarrow> EventData list" where
  "mockTicketmaster location =
    [\<lparr>ev_id = ''tm-1'', ev_title = ''Indie Rock Night'',
       ev_image = ''https://images.unsplash.com/photo-1470229722913-7c0e2dbbaf53?q=80&w=1000'',
       ev_time = ''Tonight, 20:00'', ev_location = ''Paradiso, Amsterdam'',
       ev_price = euro @ ''35.00'', ev_category = ''Concert'',
       ev_source = ''mcp-ticketmaster'',
       ev_description = Some ''Live indie rock performance featuring emerging artists. Limited tickets available.''\<rparr>,
     \<lparr>ev_id = ''tm-2'', ev_title = ''Electronic Music Festival'',
       ev_image = ''https://images.unsplash.com/photo-1470229722913-7c0e2dbbaf53?q=80&w=1000'',
       ev_time = ''Tonight, 22:00'', ev_location = ''Maassilo, Rotterdam'',
       ev_price = euro @ ''45.00'', ev_category = ''Concert'',
       ev_source = ''mcp-ticketmaster'',
       ev_description = Some ''Major electronic music event with international DJs. Warehouse venue.''\<rparr>]"

definition mockWeatherEvents :: "WeatherEventData list" where
  "mockWeatherEvents =
    [\<lparr>wx_id = ''weather-1'', wx_location = ''Rotterdam, Netherlands'', wx_weatherType = sun,
       wx_temperature = ''24'' @ degree @ ''C'', wx_condition = ''Sunny'',
       wx_precipitation = Some ''10%'', wx_humidity = Some ''65%'',
       wx_windSpeed = Some ''12 km/h''\<rparr>,
     \<lparr>wx_id = ''weather-2'', wx_location = ''Amsterdam, Netherlands'', wx_weatherType = rain,
       wx_temperature = ''15'' @ degree @ ''C'', wx_condition = ''Light Rain'',
       wx_precipitation = Some ''75%'', wx_humidity = Some ''85%'',
       wx_windSpeed = Some ''18 km/h''\<rparr>,
     \<lparr>wx_id = ''weather-3'', wx_location = ''The Hague, Netherlands'', wx_weatherType = wind,
       wx_temperature = ''18'' @ degree @ ''C'', wx_condition = ''Windy'',
       wx_precipitation = Some ''20%'', wx_humidity = Some ''70%'',
       wx_windSpeed = Some ''26 km/h''\<rparr>,
     \<lparr>wx_id = ''weather-4'', wx_location = ''Utrecht, Netherlands'', wx_weatherType = snow,
       wx_temperature = ''-2'' @ degree @ ''C'', wx_condition = ''Snow'',
       wx_precipitation = Some ''90%'', wx_humidity = Some ''95%'',
       wx_windSpeed = Some ''15 km/h''\<rparr>,
     \<lparr>wx_id = ''weather-5'', wx_location = ''Eindhoven, Netherlands'', wx_weatherType = clouds,
       wx_temperature = ''19'' @ degree @ ''C'', wx_condition = ''Cloudy'',
       wx_precipitation = Some ''40%'', wx_humidity = Some ''75%'',
       wx_windSpeed = Some ''14 km/h''\<rparr>,
     \<lparr>wx_id = ''weather-6'', wx_location = ''Groningen, Netherlands'', wx_weatherType = fog,
       wx_temperature = ''12'' @ degree @ ''C'', wx_condition = ''Foggy'',
       wx_precipitation = Some ''30%'', wx_humidity = Some ''90%'',
       wx_windSpeed = Some ''8 km/h''\<rparr>,
     \<lparr>wx_id = ''weather-7'', wx_location = ''Maastricht, Netherlands'', wx_weatherType = storm,
       wx_temperature = ''16'' @ degree @ ''C'', wx_condition = ''Thunderstorm'',
       wx_precipitation = Some ''95%'', wx_humidity = Some ''88%'',
       wx_windSpeed = Some ''32 km/h''\<rparr>,
     \<lparr>wx_id = ''weather-8'', wx_location = ''Haarlem, Netherlands'', wx_weatherType = clear,
       wx_temperature = ''22'' @ degree @ ''C'', wx_condition = ''Clear'',
       wx_precipitation = Some ''5%'', wx_humidity = Some ''60%'',
       wx_windSpeed = Some ''10 km/h''\<rparr>]"

text \<open>
  The five awaited MCP calls. Each either resolves to data or throws; the mocks of the
  source always resolve (\<open>mock_mcp\<close>), and the \<open>try\<close>/\<open>catch\<close> around the dispatch is there
  for a call that throws.
\<close>

datatype error = Thrown string

record mcp =
  callUitAgendaRotterdam :: "error + EventData list"
  callIAmsterdam :: "error + EventData list"
  callCitySecrets :: "error + CityWalkData list"
  callTicketmaster :: "string \<Rightarrow> error + EventData list"
  callWeatherEvents :: "error + WeatherEventData list"

definition mock_mcp :: mcp where
  "mock_mcp =
     \<lparr>callUitAgendaRotterdam = Inr mockUitAgendaRotterdam,
      callIAmsterdam = Inr mockIAmsterdam,
      callCitySecrets = Inr mockCitySecrets,
      callTicketmaster = (\<lambda>location. Inr (mockTicketmaster location)),
      callWeatherEvents = Inr mockWeatherEvents\<rparr>"

section \<open>The server action: keyword dispatch\<close>

record toolParams =
  tp_type :: "string option"
  tp_city :: "string option"
  tp_location :: "string option"

definition noParams :: toolParams where
  "noParams = \<lparr>tp_type = None, tp_city = None, tp_location = None\<rparr>"

text \<open>The first test of the \<open>if\<close> chain: one of the nine weather words occurs.\<close>

definition weatherWord :: "string \<Rightarrow> bool" where
  "weatherWord lowerInput =
     (includes_js lowerInput ''weather'' \<or> includes_js lowerInput ''rain'' \<or>
      includes_js lowerInput ''sun'' \<or> includes_js lowerInput ''snow'' \<or>
      includes_js lowerInput ''wind'' \<or> includes_js lowerInput ''storm'' \<or>
      includes_js lowerInput ''cloud'' \<or> includes_js lowerInput ''fog'' \<or>
      includes_js lowerInput ''clear'')"

definition walkWord :: "string \<Rightarrow> bool" where
  "walkWord lowerInput =
     (includes_js lowerInput ''walk'' \<or> includes_js lowerInput ''secret'' \<or>
      includes_js lowerInput ''hidden'')"

definition concertWord :: "string \<Rightarrow> bool" where
  "concertWord lowerInput =
     (includes_js lowerInput ''concert'' \<or> includes_js lowerInput ''ticketmaster'' \<or>
      includes_js lowerInput ''tickets'')"

text \<open>
  \<open>detectTool\<close> is the \<open>if\<close>/\<open>else if\<close> chain over \<open>lowerInput\<close>: it gives \<open>toolToCall\<close>
  and \<open>toolParams\<close>.
\<close>

definition detectTool :: "string \<Rightarrow> string \<times> toolParams" where
  "detectTool lowerInput =
     (if weatherWord lowerInput then (''get_weather_events'', noParams)
      else if includes_js lowerInput ''rotterdam'' then
        (''get_rotterdam_events'',
         if includes_js lowerInput ''concert'' \<or> includes_js lowerInput ''music''
         then noParams\<lparr>tp_type := Some ''music''\<rparr> else noParams)
      else if includes_js lowerInput ''amsterdam'' then
        (''get_amsterdam_events'',
         if includes_js lowerInput ''museum'' \<or> includes_js lowerInput ''culture''
         then noParams\<lparr>tp_type := Some ''culture''\<rparr> else noParams)
      else if walkWord lowerInput then
        (''get_city_secrets'',
         (let p1 = (if includes_js lowerInput ''amsterdam''
                    then noParams\<lparr>tp_city := Some ''amsterdam''\<rparr> else noParams)
          in if includes_js lowerInput ''rotterdam''
             then p1\<lparr>tp_city := Some ''rotterdam''\<rparr> else p1))
      else if concertWord lowerInput then
        (''get_ticketmaster_events'',
         if includes_js lowerInput ''amsterdam'' then noParams\<lparr>tp_location := Some ''Amsterdam''\<rparr>
         else if includes_js lowerInput ''rotterdam'' then noParams\<lparr>tp_location := Some ''Rotterdam''\<rparr>
         else noParams\<lparr>tp_location := Some ''Amsterdam''\<rparr>)
      else (''default_chat'', noParams))"

section \<open>The server action: manual dispatch\<close>

text \<open>
  What \<open>responseUI\<close> holds: the paragraph above the component and what the component
  renders; the help text of the \<open>default\<close> branch; the message of the \<open>catch\<close> branch.
\<close>

datatype display =
    WeatherUI string "weather_card list option"
  | EventsUI string "event_card list"
  | WalksUI string walk_list
  | HelpUI
  | ErrorUI

text \<open>
  \<open>orElse v d\<close> is \<open>v || d\<close> on an optional string: \<open>d\<close> when \<open>v\<close> is \<open>undefined\<close> or
  empty (falsy), \<open>v\<close> otherwise.
\<close>

definition orElse :: "string option \<Rightarrow> string \<Rightarrow> string" where
  "orElse v d = (case v of None \<Rightarrow> d | Some s \<Rightarrow> if s = [] then d else s)"

text \<open>How React renders \<open>{toolParams.location}\<close>: nothing for \<open>undefined\<close>.\<close>

definition renderText :: "string option \<Rightarrow> string" where
  "renderText v = (case v of None \<Rightarrow> [] | Some s \<Rightarrow> s)"

text \<open>
  \<open>toolParams.city ? walks.filter(...) : walks\<close>: the filter runs when the city is present
  and not empty.
\<close>

definition filteredWalks :: "toolParams \<Rightarrow> CityWalkData list \<Rightarrow> CityWalkData list" where
  "filteredWalks tp walks =
     (case tp_city tp of
        None \<Rightarrow> walks
      | Some c \<Rightarrow>
          if c = [] then walks
          else filter (\<lambda>w. includes_js (toLowerCase (walk_location w)) c) walks)"

text \<open>
  \<open>switchTool\<close> is the body of the \<open>try\<close>: the \<open>switch\<close> over \<open>toolToCall\<close>. A call that
  throws leaves the \<open>switch\<close> with the error (\<open>Inl\<close>).
\<close>

definition switchTool :: "mcp \<Rightarrow> string \<Rightarrow> toolParams \<Rightarrow> error + display" where
  "switchTool srv toolToCall tp =
     (if toolToCall = ''get_weather_events'' then
        (case callWeatherEvents srv of
           Inl e \<Rightarrow> Inl e
         | Inr weatherEvents \<Rightarrow>
             Inr (WeatherUI ''Here are some weather-appropriate activities:''
                    (WeatherEventCarousel weatherEvents)))
      else if toolToCall = ''get_rotterdam_events'' then
        (case callUitAgendaRotterdam srv of
           Inl e \<Rightarrow> Inl e
         | Inr events \<Rightarrow>
             Inr (EventsUI ''I found some great vibes in Rotterdam for you:''
                    (EventCarousel events)))
      else if toolToCall = ''get_amsterdam_events'' then
        (case callIAmsterdam srv of
           Inl e \<Rightarrow> Inl e
         | Inr events \<Rightarrow>
             Inr (EventsUI (''Here is what'' @ [CHR 0x27] @ ''s happening in Amsterdam tonight:'')
                    (EventCarousel events)))
      else if toolToCall = ''get_city_secrets'' then
        (case callCitySecrets srv of
           Inl e \<Rightarrow> Inl e
         | Inr walks \<Rightarrow>
             Inr (WalksUI ''Looking for something hidden? Check these out:''
                    (WalkList (filteredWalks tp walks))))
      else if toolToCall = ''get_ticketmaster_events'' then
        (case callTicketmaster srv (orElse (tp_location tp) ''Amsterdam'') of
           Inl e \<Rightarrow> Inl e
         | Inr events \<Rightarrow>
             Inr (EventsUI (''Concert tickets available in '' @ renderText (tp_location tp) @ '':'')
                    (EventCarousel events)))
      else Inr HelpUI)"

text \<open>The \<open>try\<close>/\<open>catch\<close>: a thrown error becomes the error paragraph.\<close>

definition responseUI :: "mcp \<Rightarrow> string \<Rightarrow> toolParams \<Rightarrow> display" where
  "responseUI srv toolToCall tp =
     (case switchTool srv toolToCall tp of Inl e \<Rightarrow> ErrorUI | Inr ui \<Rightarrow> ui)"

record ClientMessage =
  msg_id :: nat
  msg_display :: display

text \<open>
  \<open>submitUserMessage_on srv now aiState input\<close> is the server action run against the MCP
  calls \<open>srv\<close>, at clock reading \<open>now\<close> (\<open>Date.now()\<close>), from the AI state \<open>aiState\<close>. It gives
  the AI state after \<open>aiState.done\<close> and the message returned, whose id is the clock reading
  (the source returns its decimal text). The two timer delays have no effect on either.
\<close>

definition submitUserMessage_on :: "mcp \<Rightarrow> nat \<Rightarrow> ServerMessage list \<Rightarrow> string \<Rightarrow> ServerMessage list \<times> ClientMessage" where
  "submitUserMessage_on srv now aiState input =
     (let aiState1 = aiState @ [\<lparr>role = user, content = input\<rparr>];
          lowerInput = toLowerCase input;
          (toolToCall, tp) = detectTool lowerInput;
          ui = responseUI srv toolToCall tp;
          aiState2 = aiState1 @ [\<lparr>role = assistant, content = ''Displaying UI for '' @ toolToCall\<rparr>]
      in (aiState2, \<lparr>msg_id = now, msg_display = ui\<rparr>))"

definition submitUserMessage :: "nat \<Rightarrow> ServerMessage list \<Rightarrow> string \<Rightarrow> ServerMessage list \<times> ClientMessage" where
  "submitUserMessage = submitUserMessage_on mock_mcp"

section \<open>Favourites (components/event-card)\<close>

text \<open>
  The item \<open>cityvibe-favorites\<close> of \<open>localStorage\<close> is modelled by the list of ids its
  JSON text holds, \<open>None\<close> when the item is absent; \<open>storedFavorites\<close> is
  \<open>JSON.parse(localStorage.getItem("cityvibe-favorites") || "[]")\<close>. An item that is not
  the JSON text of a list of strings is outside the model. \<open>isFavorite\<close> is the card's own
  React state.
\<close>

definition storedFavorites :: "string list option \<Rightarrow> string list" where
  "storedFavorites item = (case item of None \<Rightarrow> [] | Some favorites \<Rightarrow> favorites)"

text \<open>The effect run when the card mounts: \<open>setIsFavorite(favorites.includes(event.id))\<close>.\<close>

definition loadFavorite :: "string \<Rightarrow> string list option \<Rightarrow> bool" where
  "loadFavorite eventId item = (eventId \<in> set (storedFavorites item))"

text \<open>
  \<open>handleFavorite eventId (item, isFavorite)\<close> gives the stored item and the card's flag
  after one click.
\<close>

definition handleFavorite :: "string \<Rightarrow> string list option \<times> bool \<Rightarrow> string list option \<times> bool" where
  "handleFavorite eventId st =
     (let favorites = storedFavorites (fst st)
      in if snd st
         then (Some (filter (\<lambda>i. i \<noteq> eventId) favorites), False)
         else (Some (favorites @ [eventId]), True))"

section \<open>Event reconciliation: the deduplicator of the specification\<close>

text \<open>
  The repository holds no ingestion code: the normalizer, validator, signature hasher,
  deduplicator and event store exist only as the design of the specification (sections 3,
  4.3 and 4.4). The definitions of this section are modelled from the specification's
  words. Instants are seconds since the epoch; identities are numbers handed out by the
  store.
\<close>

text \<open>
  Modelled from the spec: the event type enumeration of section 3; the repository declares
  no event type.
\<close>

datatype EventType = concert | theater | museum | other

text \<open>
  Modelled from the spec: the scalar fields of a CanonicalEvent (section 3), which a
  normalized draft carries as well; no record type for events exists in the repository.
\<close>

record scalars =
  sc_source :: string
  sc_source_id :: "string option"
  sc_source_url :: string
  sc_title :: string
  sc_description :: "string option"
  sc_event_type :: EventType
  sc_start :: int
  sc_end :: "int option"
  sc_venue :: "string option"
  sc_location_name :: string
  sc_address :: "string option"
  sc_coords :: "(rat \<times> rat) option"
  sc_price_min :: "rat option"
  sc_price_max :: "rat option"
  sc_currency :: string
  sc_ticket_url :: "string option"

text \<open>
  Modelled from the spec: a validated draft, the deduplicator's input (section 4.4): the
  scalar fields, the tags, the confidence score and the raw payload snapshot. The
  normalizer and validator that produce it are missing from the repository.
\<close>

record draft =
  d_fields :: scalars
  d_tags :: "string list"
  d_confidence :: rat
  d_raw :: string

text \<open>
  Modelled from the spec: the CanonicalEvent of section 3, without the fields only the
  enricher writes (embedding, expiry); the event store is missing from the repository.
\<close>

record CanonicalEvent =
  ce_id :: nat
  ce_fields :: scalars
  ce_tags :: "string list"
  ce_confidence :: rat
  ce_raw_history :: "string list"
  ce_created_at :: int
  ce_updated_at :: int

text \<open>
  Modelled from the spec: the third component of the exact key (section 4.3), "venue id or
  normalized location name"; the signature hasher is missing from the repository.
\<close>

datatype place = VenueId string | LocationName string

text \<open>
  Modelled from the spec: the exact key of section 4.3. The hash is taken to be free of
  collisions, so the key is the hashed triple itself: lowercase title, start time
  truncated to the minute, venue id or else the lowercase location name. The signature
  hasher is missing from the repository.
\<close>

type_synonym exact_key = "string \<times> int \<times> place"

definition exact_key :: "scalars \<Rightarrow> exact_key" where
  "exact_key f =
     (toLowerCase (sc_title f), sc_start f div 60,
      (case sc_venue f of
         Some v \<Rightarrow> VenueId v
       | None \<Rightarrow> LocationName (toLowerCase (sc_location_name f))))"



text \<open>
  Modelled from the spec: the named tunables of sections 4.4 and 9: the fuzzy time window
  (seconds), the similarity threshold, the stopwords of the fuzzy key, the bound of the raw
  payload history, and the store's test that two coordinates lie within the small radius.
  No configuration exists in the repository.
\<close>

record config =
  cfg_window :: int
  cfg_threshold :: rat
  cfg_stopwords :: "string list"
  cfg_history :: nat
  cfg_near :: "rat \<times> rat \<Rightarrow> rat \<times> rat \<Rightarrow> bool"












text \<open>
  Modelled from the spec: the exact match of section 4.4, step 1, looked up among all
  signature rows: the event of the first row that holds the exact key. The deduplicator
  is missing from the repository.
\<close>

definition exact_match :: "exact_key \<Rightarrow> (nat \<times> exact_key) list \<Rightarrow> nat option" where
  "exact_match k sigs = map_option fst (find (\<lambda>row. snd row = k) sigs)"

text \<open>
  Modelled from the spec: the update semantics of section 4.4: scalar fields (the
  confidence with them) are overwritten only if the draft's confidence is at least the
  stored one, tags are unioned, the raw payload is put in front of the bounded history,
  and the last-updated time is bumped. The deduplicator is missing from the repository.
\<close>

definition merge :: "config \<Rightarrow> int \<Rightarrow> draft \<Rightarrow> CanonicalEvent \<Rightarrow> CanonicalEvent" where
  "merge cfg now d e =
     (let e1 = (if ce_confidence e \<le> d_confidence d
                then e\<lparr>ce_fields := d_fields d, ce_confidence := d_confidence d\<rparr>
                else e)
      in e1\<lparr>ce_tags := List.union (d_tags d) (ce_tags e),
            ce_raw_history := take (cfg_history cfg) (d_raw d # ce_raw_history e),
            ce_updated_at := now\<rparr>)"















section \<open>Notions used to state and prove the properties of the deduplicator\<close>











section \<open>Properties of the strings and of the keyword dispatch\<close>

lemmas kw_defs = detectTool_def toLowerCase_def toLowerChar_def weatherWord_def walkWord_def
  concertWord_def

lemmas action_defs = submitUserMessage_def submitUserMessage_on_def responseUI_def switchTool_def
  mock_mcp_def noParams_def orElse_def renderText_def

text \<open>\<open>includes_js\<close> is the substring test.\<close>

lemma includes_js_iff: "includes_js s t \<longleftrightarrow> (\<exists>ps ss. s = ps @ t @ ss)"
proof (induction s)
  case Nil
  show ?case by auto
next
  case (Cons c cs)
  show ?case
    apply (simp add: Cons.IH prefix_def)
    apply (auto simp: Cons_eq_append_conv)
    done
qed

text \<open>
  An input that reaches the city-secrets branch holds neither city name (both were tested
  by earlier branches), so the branch never sets \<open>toolParams.city\<close>; for the same reason
  the Ticketmaster branch always sets the location to its default.
\<close>

lemma city_secrets_city_never_set:
  "fst (detectTool l) = ''get_city_secrets'' \<Longrightarrow> tp_city (snd (detectTool l)) = None"
  by (auto simp: detectTool_def noParams_def split: if_splits)

lemma ticketmaster_location_default:
  "fst (detectTool l) = ''get_ticketmaster_events'' \<Longrightarrow>
   tp_location (snd (detectTool l)) = Some ''Amsterdam''"
  by (auto simp: detectTool_def noParams_def split: if_splits)

text \<open>
  So every query answered by the city-secrets branch of the source shows all the walks of
  the mock: the city filter of that branch is never applied.
\<close>

lemma city_secrets_shows_all_walks:
  assumes "fst (detectTool (toLowerCase input)) = ''get_city_secrets''"
  shows "msg_display (snd (submitUserMessage now aiState input)) =
           WalksUI ''Looking for something hidden? Check these out:''
             (Walks (map CityWalk mockCitySecrets))"
proof -
  obtain t tp where d: "detectTool (toLowerCase input) = (t, tp)"
    by (cases "detectTool (toLowerCase input)")
  have t: "t = ''get_city_secrets''" using assms d by simp
  have c: "tp_city tp = None"
    using city_secrets_city_never_set [OF assms] d by simp
  have n: "length mockCitySecrets \<noteq> 0" by (simp add: mockCitySecrets_def)
  show ?thesis
    using n by (simp add: submitUserMessage_def submitUserMessage_on_def d t responseUI_def
        switchTool_def mock_mcp_def filteredWalks_def c WalkList_def)
qed

section \<open>C1: results and the location filter\<close>

text \<open>
  C1 says that the events of the Ticketmaster path all lie in the requested location. The
  input \<open>concert\<close> is dispatched to Ticketmaster with location Amsterdam; the answer is
  headed "Concert tickets available in Amsterdam:" and shows both events of
  \<open>mockTicketmaster\<close>, the second of which is at "Maassilo, Rotterdam".
\<close>

theorem ticketmaster_ignores_location:
  "msg_display (snd (submitUserMessage now aiState ''concert'')) =
     EventsUI ''Concert tickets available in Amsterdam:''
       (EventCarousel (mockTicketmaster ''Amsterdam''))
   \<and> map ev_location (mockTicketmaster ''Amsterdam'') =
       [''Paradiso, Amsterdam'', ''Maassilo, Rotterdam'']
   \<and> \<not> includes_js (toLowerCase ''Maassilo, Rotterdam'') ''amsterdam''"
  by (simp add: kw_defs action_defs mockTicketmaster_def)

text \<open>The city-secrets filter itself keeps only walks whose location holds the city.\<close>

lemma filteredWalks_sound:
  "tp_city tp = Some c \<Longrightarrow> c \<noteq> [] \<Longrightarrow> w \<in> set (filteredWalks tp walks) \<Longrightarrow>
   w \<in> set walks \<and> includes_js (toLowerCase (walk_location w)) c"
  by (simp add: filteredWalks_def)

section \<open>C2: a call that throws\<close>




section \<open>The deduplicator: exact keys and signature rows\<close>

text \<open>
  The lookup of an exact key follows the rows; a row is only ever put in front of rows
  that do not hold its key, so a key that is bound stays bound to the same event.
\<close>

lemma exact_match_Nil [simp]: "exact_match k [] = None"
  by (simp add: exact_match_def)

lemma exact_match_Cons [simp]:
  "exact_match k (row # sigs) = (if snd row = k then Some (fst row) else exact_match k sigs)"
  by (simp add: exact_match_def)
















section \<open>The deduplicator: well-formed stores\<close>

text \<open>Processing drafts keeps a store well-formed.\<close>

lemma merge_id [simp]: "ce_id (merge cfg now d e) = ce_id e"
  by (simp add: merge_def Let_def)









section \<open>The deduplicator: merging the same drafts again\<close>

text \<open>
  A batch of drafts whose keys are bound acts on each event separately: the event receives,
  in order, the drafts bound to it.
\<close>

lemma fold_merge_id [simp]: "ce_id (fold (merge cfg now) ds e) = ce_id e"
  by (induction ds arbitrary: e) simp_all




lemma set_union_list [simp]: "set (List.union xs ys) = set xs \<union> set ys"
  by simp













lemma created_merge [simp]: "ce_created_at (merge cfg now d e) = ce_created_at e"
  by (simp add: merge_def Let_def)

lemma created_fold [simp]: "ce_created_at (fold (merge cfg now) ds e) = ce_created_at e"
  by (induction ds arbitrary: e) simp_all






section \<open>The deduplicator: reachable stores\<close>








section \<open>The deduplicator: titles that differ in punctuation and stopwords\<close>




section \<open>C3: processing a batch a second time\<close>




section \<open>C4: the scenario of the two Jazz at Bird records\<close>



section \<open>C6: one event per key\<close>




section \<open>C7: a city that matches no walk\<close>



section \<open>C8: the order of the keyword tests\<close>

text \<open>
  C8 (amended). Over the lowercased input \<open>l\<close> the tool is chosen by the first keyword group
  that occurs, in the order weather words, "rotterdam", "amsterdam", walk words, concert
  words; an input with none of them gets \<open>default_chat\<close>, whose answer is the help text
  whatever the MCP calls would do. So an input with "weather" and a city name gets the
  weather tool, and an input with "rotterdam" and "walk" never gets city secrets: it gets
  the Rotterdam events when it holds no weather word (and the weather tool when it does).
\<close>

theorem detectTool_priority:
  "(weatherWord l \<longrightarrow> fst (detectTool l) = ''get_weather_events'') \<and>
   (\<not> weatherWord l \<and> includes_js l ''rotterdam'' \<longrightarrow>
      fst (detectTool l) = ''get_rotterdam_events'') \<and>
   (\<not> weatherWord l \<and> \<not> includes_js l ''rotterdam'' \<and> includes_js l ''amsterdam'' \<longrightarrow>
      fst (detectTool l) = ''get_amsterdam_events'') \<and>
   (\<not> weatherWord l \<and> \<not> includes_js l ''rotterdam'' \<and> \<not> includes_js l ''amsterdam'' \<and>
    walkWord l \<longrightarrow> fst (detectTool l) = ''get_city_secrets'') \<and>
   (\<not> weatherWord l \<and> \<not> includes_js l ''rotterdam'' \<and> \<not> includes_js l ''amsterdam'' \<and>
    \<not> walkWord l \<and> concertWord l \<longrightarrow> fst (detectTool l) = ''get_ticketmaster_events'') \<and>
   (\<not> weatherWord l \<and> \<not> includes_js l ''rotterdam'' \<and> \<not> includes_js l ''amsterdam'' \<and>
    \<not> walkWord l \<and> \<not> concertWord l \<longrightarrow>
      fst (detectTool l) = ''default_chat'' \<and>
      (\<forall>srv. responseUI srv (fst (detectTool l)) (snd (detectTool l)) = HelpUI)) \<and>
   (includes_js l ''weather'' \<and> (includes_js l ''rotterdam'' \<or> includes_js l ''amsterdam'') \<longrightarrow>
      fst (detectTool l) = ''get_weather_events'') \<and>
   (includes_js l ''rotterdam'' \<and> includes_js l ''walk'' \<longrightarrow>
      fst (detectTool l) \<noteq> ''get_city_secrets'' \<and>
      (\<not> weatherWord l \<longrightarrow> fst (detectTool l) = ''get_rotterdam_events''))"
  by (simp add: detectTool_def responseUI_def switchTool_def weatherWord_def)

theorem detectTool_priority_witness:
  "weatherWord ''weather in rotterdam'' \<and>
   fst (detectTool ''weather in rotterdam'') = ''get_weather_events'' \<and>
   \<not> weatherWord ''rotterdam walk'' \<and>
   fst (detectTool ''rotterdam walk'') = ''get_rotterdam_events'' \<and>
   fst (detectTool ''museums in amsterdam'') = ''get_amsterdam_events'' \<and>
   fst (detectTool ''a hidden gem'') = ''get_city_secrets'' \<and>
   fst (detectTool ''tickets please'') = ''get_ticketmaster_events'' \<and>
   fst (detectTool ''hello'') = ''default_chat'' \<and>
   responseUI (mock_mcp\<lparr>callCitySecrets := Inl (Thrown ''down'')\<rparr>)
     (fst (detectTool ''hello'')) (snd (detectTool ''hello'')) = HelpUI"
proof -
  have w: "weatherWord ''weather in rotterdam''" by (simp add: weatherWord_def)
  have r: "\<not> weatherWord ''rotterdam walk'' \<and> includes_js ''rotterdam walk'' ''rotterdam''"
    by (simp add: weatherWord_def)
  have a: "\<not> weatherWord ''museums in amsterdam'' \<and>
           \<not> includes_js ''museums in amsterdam'' ''rotterdam'' \<and>
           includes_js ''museums in amsterdam'' ''amsterdam''"
    by (simp add: weatherWord_def)
  have s: "\<not> weatherWord ''a hidden gem'' \<and> \<not> includes_js ''a hidden gem'' ''rotterdam'' \<and>
           \<not> includes_js ''a hidden gem'' ''amsterdam'' \<and> walkWord ''a hidden gem''"
    by (simp add: weatherWord_def walkWord_def)
  have c: "\<not> weatherWord ''tickets please'' \<and> \<not> includes_js ''tickets please'' ''rotterdam'' \<and>
           \<not> includes_js ''tickets please'' ''amsterdam'' \<and> \<not> walkWord ''tickets please'' \<and>
           concertWord ''tickets please''"
    by (simp add: weatherWord_def walkWord_def concertWord_def)
  have d: "\<not> weatherWord ''hello'' \<and> \<not> includes_js ''hello'' ''rotterdam'' \<and>
           \<not> includes_js ''hello'' ''amsterdam'' \<and> \<not> walkWord ''hello'' \<and>
           \<not> concertWord ''hello''"
    by (simp add: weatherWord_def walkWord_def concertWord_def)
  note p = detectTool_priority
  have 1: "fst (detectTool ''weather in rotterdam'') = ''get_weather_events''"
    using w p [of "''weather in rotterdam''"] by (elim conjE) (erule mp)
  have 2: "fst (detectTool ''rotterdam walk'') = ''get_rotterdam_events''"
    using r p [of "''rotterdam walk''"] by (elim conjE) (erule mp, blast)
  have 3: "fst (detectTool ''museums in amsterdam'') = ''get_amsterdam_events''"
    using a p [of "''museums in amsterdam''"] by (elim conjE) (erule mp, blast)
  have 4: "fst (detectTool ''a hidden gem'') = ''get_city_secrets''"
    using s p [of "''a hidden gem''"] by (elim conjE) (erule mp, blast)
  have 5: "fst (detectTool ''tickets please'') = ''get_ticketmaster_events''"
    using c p [of "''tickets please''"] by (elim conjE) (erule mp, blast)
  have 6: "fst (detectTool ''hello'') = ''default_chat'' \<and>
      (\<forall>srv. responseUI srv (fst (detectTool ''hello'')) (snd (detectTool ''hello'')) = HelpUI)"
    using d p [of "''hello''"] by (elim conjE) (erule mp, blast)
  show ?thesis using w r 1 2 3 4 5 6 by blast
qed

text \<open>
  C8 as stated fails on its second example: "Rotterdam walk in the rain" holds both
  "rotterdam" and "walk", and is dispatched to the weather tool, not to the Rotterdam events.
\<close>

theorem rotterdam_walk_counterexample:
  "includes_js (toLowerCase ''Rotterdam walk in the rain'') ''rotterdam'' \<and>
   includes_js (toLowerCase ''Rotterdam walk in the rain'') ''walk'' \<and>
   fst (detectTool (toLowerCase ''Rotterdam walk in the rain'')) = ''get_weather_events'' \<and>
   msg_display (snd (submitUserMessage 0 [] ''Rotterdam walk in the rain'')) =
     WeatherUI ''Here are some weather-appropriate activities:''
       (WeatherEventCarousel mockWeatherEvents)"
  by (simp add: kw_defs submitUserMessage_def submitUserMessage_on_def responseUI_def
      switchTool_def mock_mcp_def)

section \<open>C9: toggling a favourite twice\<close>

text \<open>
  C9 (amended). For an event id that occurs at most once in the stored list, and a card
  whose \<open>isFavorite\<close> flag agrees with the stored list (as the mount effect sets it), two
  clicks on the favourite button in succession leave the stored list with the same set of
  ids, and the flag as it was.
\<close>

theorem favourite_toggle_twice:
  assumes "count_list (storedFavorites item) eventId \<le> 1"
      and "isFavorite = loadFavorite eventId item"
  shows "set (storedFavorites (fst (handleFavorite eventId
                (handleFavorite eventId (item, isFavorite))))) = set (storedFavorites item)
     \<and> snd (handleFavorite eventId (handleFavorite eventId (item, isFavorite))) = isFavorite"
  using assms(2)
  by (auto simp: handleFavorite_def loadFavorite_def storedFavorites_def Let_def
      split: option.splits)

theorem favourite_toggle_twice_witness:
  "count_list (storedFavorites (Some [''rot-1'', ''ams-2''])) ''rot-1'' \<le> 1 \<and>
   loadFavorite ''rot-1'' (Some [''rot-1'', ''ams-2'']) \<and>
   fst (handleFavorite ''rot-1'' (handleFavorite ''rot-1'' (Some [''rot-1'', ''ams-2''], True)))
     = Some [''ams-2'', ''rot-1''] \<and>
   set (storedFavorites (fst (handleFavorite ''rot-1''
          (handleFavorite ''rot-1'' (Some [''rot-1'', ''ams-2''], True))))) =
   set (storedFavorites (Some [''rot-1'', ''ams-2'']))"
proof -
  have h1: "count_list (storedFavorites (Some [''rot-1'', ''ams-2''])) ''rot-1'' \<le> 1"
    by (simp add: storedFavorites_def)
  have h2: "True = loadFavorite ''rot-1'' (Some [''rot-1'', ''ams-2''])"
    by (simp add: loadFavorite_def storedFavorites_def)
  have e: "fst (handleFavorite ''rot-1'' (handleFavorite ''rot-1'' (Some [''rot-1'', ''ams-2''], True)))
     = Some [''ams-2'', ''rot-1'']"
    by (simp add: handleFavorite_def storedFavorites_def)
  show ?thesis
    using h1 h2 e favourite_toggle_twice [OF h1 h2] by simp
qed

text \<open>
  C9 as stated fails when the flag is stale: the id is stored once (put there through
  another card of the same event) while this card's flag is still \<open>False\<close>. The first click
  stores the id a second time, the second click removes both.
\<close>

theorem favourite_toggle_twice_counterexample:
  "count_list (storedFavorites (Some [''rot-1''])) ''rot-1'' \<le> 1 \<and>
   fst (handleFavorite ''rot-1'' (handleFavorite ''rot-1'' (Some [''rot-1''], False))) = Some [] \<and>
   set (storedFavorites (fst (handleFavorite ''rot-1''
          (handleFavorite ''rot-1'' (Some [''rot-1''], False))))) \<noteq>
   set (storedFavorites (Some [''rot-1'']))"
  by (simp add: handleFavorite_def storedFavorites_def)

section \<open>C10: the weather carousel and its fallback list\<close>

text \<open>
  C10. \<open>WeatherEventCarousel\<close> renders nothing for an empty list and otherwise one card for
  each event passed, in order; whatever list stands in the place of \<open>demoEvents\<close>, the result
  is the same, so the fallback is never shown.
\<close>

theorem WeatherEventCarousel_renders_passed_events:
  "WeatherEventCarousel events = (if events = [] then None else Some (map WeatherEventCard events))
   \<and> WeatherEventCarousel_with demo events = WeatherEventCarousel events"
  by (simp add: WeatherEventCarousel_def WeatherEventCarousel_with_def displayEvents_of_def)

end
